theory Spec2Isabelle
  imports Main "HOL-Library.AList"
begin

section \<open>The command-line entry point \<open>src/cli/__main__.py\<close>\<close>

text \<open>
  The module has three statements after its imports: a function \<open>cli\<close> decorated
  with \<open>@click.group()\<close> (lines 6-9), the call \<open>cli.add_command(build)\<close> (line 12)
  and the guarded call \<open>cli()\<close> (lines 14-15). The development embeds the three
  statements as functions on a module state and states the claims about them.

  Two things the module uses are not part of the source. The object \<open>build\<close> is
  imported from \<open>.commands\<close>: it is a parameter of the model, a command with a name
  and a behaviour. The call \<open>cli()\<close> enters the CLI framework (click): the call is a
  parameter of the module as well, so that statements about the module hold for whatever
  the framework does; one dispatcher, written from the words of the specification, is
  given further down for the claims that are about the dispatch itself.
\<close>

subsection \<open>Objects of the framework\<close>

text \<open>
  How a process ends: with an exit status (\<open>sys.exit(n)\<close>, \<open>ctx.exit(n)\<close>, or a
  normal return, which a standalone click program turns into status 0), or with an
  exception \<open>e\<close> that nobody caught.
\<close>

datatype 'e outcome = Exited int | Raised 'e

text \<open>
  A click command: its name and what it does with the arguments that follow its name,
  in a world \<open>'w\<close> (everything the command can read or change).
\<close>

record ('e, 'w) command =
  cmd_name :: string
  cmd_run :: "string list \<Rightarrow> 'w \<Rightarrow> 'e outcome \<times> 'w"

text \<open>An option declared on a command (\<open>@click.option\<close>): its names and its environment variable.\<close>

record option_decl =
  opt_names :: "string list"
  opt_envvar :: "string option"

text \<open>
  A click group: name, help text (the docstring of the decorated function), declared
  parameters, the callback (the decorated function) and the dictionary of subcommands,
  kept in insertion order.
\<close>

record ('e, 'w) group =
  grp_name :: string
  grp_help :: string
  grp_params :: "option_decl list"
  grp_callback :: "'w \<Rightarrow> 'w"
  grp_commands :: "(string \<times> ('e, 'w) command) list"

text \<open>
  \<open>@click.group()\<close> applied to a function: the group takes the function's name, its
  docstring, the parameters that option decorators attached to it, and the function as
  callback; it has no subcommand yet.
\<close>

definition click_group ::
  "string \<Rightarrow> string \<Rightarrow> option_decl list \<Rightarrow> ('w \<Rightarrow> 'w) \<Rightarrow> ('e, 'w) group" where
  "click_group n doc params f =
     \<lparr>grp_name = n, grp_help = doc, grp_params = params, grp_callback = f, grp_commands = []\<rparr>"

text \<open>
  \<open>Group.add_command(cmd)\<close> with no explicit name: \<open>self.commands[cmd.name] = cmd\<close>.
  A name already present keeps its place and gets the new command.
\<close>

definition add_command :: "('e, 'w) group \<Rightarrow> ('e, 'w) command \<Rightarrow> ('e, 'w) group" where
  "add_command g cmd = g\<lparr>grp_commands := AList.update (cmd_name cmd) cmd (grp_commands g)\<rparr>"

text \<open>
  The options a group answers to are the declared ones followed by the help option that
  the framework adds to every command (\<open>Command.get_params\<close>).
\<close>

definition help_option :: option_decl where
  "help_option = \<lparr>opt_names = [''--help''], opt_envvar = None\<rparr>"

definition get_params :: "('e, 'w) group \<Rightarrow> option_decl list" where
  "get_params g = grp_params g @ [help_option]"

definition find_option :: "('e, 'w) group \<Rightarrow> string \<Rightarrow> option_decl option" where
  "find_option g tok = find (\<lambda>p. tok \<in> set (opt_names p)) (get_params g)"

definition envvars :: "('e, 'w) group \<Rightarrow> string list" where
  "envvars g = List.map_filter opt_envvar (get_params g)"

text \<open>What a call of the group reports: the branch it took, how it ended, what it printed.\<close>

datatype ('e, 'w) selection =
    ShowHelp
  | Invoke "('e, 'w) command" "string list"
  | UsageFail string

datatype message =
    HelpPage string "string list" "string list"
  | UsageMessage string string

record ('e, 'w) main_result =
  selected :: "('e, 'w) selection"
  outcome :: "'e outcome"
  emitted :: "message list"
  world :: 'w

type_synonym ('e, 'w) framework =
  "('e, 'w) group \<Rightarrow> string list \<Rightarrow> 'w \<Rightarrow> ('e, 'w) main_result"

subsection \<open>The module\<close>

text \<open>Lines 7-9: \<open>def cli(): """...""" pass\<close>. The body does nothing.\<close>

definition cli_doc :: string where
  "cli_doc = ''Commercial Marketplace Offer Deployment Manager (MODM) CLI that exposes application packaging''"

definition cli_fn :: "'w \<Rightarrow> 'w" where
  "cli_fn w = w"

text \<open>
  The state of a run of the module: the statements executed so far, the module global
  \<open>cli\<close>, the result of the call \<open>cli()\<close> if it was made, and the world.
\<close>

datatype step = DefGroup | AddCommand string | CallGroup "string list"

record ('e, 'w) module_run =
  mr_steps :: "step list"
  mr_cli :: "('e, 'w) group"
  mr_main :: "('e, 'w) main_result option"
  mr_world :: 'w

text \<open>Lines 6-9: the decorator binds \<open>cli\<close> to a group with no declared option.\<close>

definition stmt_def_group :: "'w \<Rightarrow> ('e, 'w) module_run" where
  "stmt_def_group w =
     \<lparr>mr_steps = [DefGroup], mr_cli = click_group ''cli'' cli_doc [] cli_fn,
      mr_main = None, mr_world = w\<rparr>"

text \<open>Line 12: \<open>cli.add_command(build)\<close>.\<close>

definition stmt_add_command ::
  "('e, 'w) command \<Rightarrow> ('e, 'w) module_run \<Rightarrow> ('e, 'w) module_run" where
  "stmt_add_command build s =
     s\<lparr>mr_cli := add_command (mr_cli s) build,
       mr_steps := mr_steps s @ [AddCommand (cmd_name build)]\<rparr>"

text \<open>
  Lines 14-15: \<open>if __name__ == '__main__': cli()\<close>. The call passes no argument, so the
  framework reads the process arguments; its result is not bound, not inspected and
  not wrapped in a handler.
\<close>

definition stmt_main ::
  "('e, 'w) framework \<Rightarrow> string \<Rightarrow> string list \<Rightarrow> ('e, 'w) module_run \<Rightarrow> ('e, 'w) module_run" where
  "stmt_main fw name argv s =
     (if name = ''__main__''
      then (let r = fw (mr_cli s) argv (mr_world s)
            in s\<lparr>mr_steps := mr_steps s @ [CallGroup argv], mr_main := Some r,
                 mr_world := world r\<rparr>)
      else s)"

text \<open>
  The module, run under the name \<open>name\<close> with process arguments \<open>argv\<close> in world \<open>w\<close>,
  \<open>build\<close> being what the import gave and \<open>fw\<close> what calling a group does.
\<close>

definition run_module ::
  "('e, 'w) framework \<Rightarrow> ('e, 'w) command \<Rightarrow> string \<Rightarrow> string list \<Rightarrow> 'w \<Rightarrow> ('e, 'w) module_run" where
  "run_module fw build name argv w =
     stmt_main fw name argv (stmt_add_command build (stmt_def_group w))"

text \<open>The group as the module leaves it: \<open>cli\<close> after line 12.\<close>

definition cli :: "('e, 'w) command \<Rightarrow> ('e, 'w) group" where
  "cli build = add_command (click_group ''cli'' cli_doc [] cli_fn) build"

text \<open>
  What the interpreter makes of the end of the module: status 0 when the module body
  completes, the status of a \<open>SystemExit\<close>, status 1 for an exception nobody caught.
\<close>

definition status_of :: "'e outcome \<Rightarrow> int" where
  "status_of r = (case r of Exited n \<Rightarrow> n | Raised e \<Rightarrow> 1)"

definition exit_status :: "('e, 'w) module_run \<Rightarrow> int" where
  "exit_status s = (case mr_main s of None \<Rightarrow> 0 | Some r \<Rightarrow> status_of (outcome r))"

definition module_error :: "('e, 'w) module_run \<Rightarrow> 'e option" where
  "module_error s =
     (case mr_main s of None \<Rightarrow> None
      | Some r \<Rightarrow> (case outcome r of Exited n \<Rightarrow> None | Raised e \<Rightarrow> Some e))"

definition module_emitted :: "('e, 'w) module_run \<Rightarrow> message list" where
  "module_emitted s = (case mr_main s of None \<Rightarrow> [] | Some r \<Rightarrow> emitted r)"

definition is_call :: "step \<Rightarrow> bool" where
  "is_call s = (case s of CallGroup a \<Rightarrow> True | _ \<Rightarrow> False)"

subsection \<open>The dispatch of a group call\<close>

text \<open>
  A token that looks like an option rather than like the name of a subcommand.
\<close>

definition is_option_token :: "string \<Rightarrow> bool" where
  "is_option_token a = (case a of [] \<Rightarrow> False | c # cs \<Rightarrow> c = CHR ''-'')"

definition list_commands :: "('e, 'w) group \<Rightarrow> string list" where
  "list_commands g = map fst (grp_commands g)"

text \<open>
  Modelled from the spec: the choice a group call makes from the arguments, which is
  code of the CLI framework and is not in the source. The specification says: no
  arguments or \<open>--help\<close> lists the subcommands; otherwise the call "determines which
  registered subcommand matches, invokes it with the remaining arguments"; and "unknown
  subcommand or malformed arguments are reported by the underlying CLI framework as a
  usage error".
\<close>

definition resolve :: "('e, 'w) group \<Rightarrow> string list \<Rightarrow> ('e, 'w) selection" where
  "resolve g args =
     (case args of
        [] \<Rightarrow> ShowHelp
      | a # rest \<Rightarrow>
          if args = [''--help''] then ShowHelp
          else (case map_of (grp_commands g) a of
                  Some c \<Rightarrow> Invoke c rest
                | None \<Rightarrow> UsageFail a))"

text \<open>
  Modelled from the spec: what a group call does with its choice, which is code of the
  CLI framework and is not in the source. Help prints the help text, the options and the
  subcommands and succeeds; a subcommand runs after the group's callback, on the
  remaining arguments, and "exit status [is] propagated from the invoked subcommand";
  a usage error prints a usage message and ends "with nonzero exit status" (2 is the
  status the framework gives a usage error).
\<close>

definition group_main :: "('e, 'w) framework" where
  "group_main g args w =
     (case resolve g args of
        ShowHelp \<Rightarrow>
          \<lparr>selected = ShowHelp, outcome = Exited 0,
           emitted = [HelpPage (grp_help g) (concat (map opt_names (get_params g))) (list_commands g)],
           world = w\<rparr>
      | Invoke c rest \<Rightarrow>
          (let (r, w') = cmd_run c rest (grp_callback g w)
           in \<lparr>selected = Invoke c rest, outcome = r, emitted = [], world = w'\<rparr>)
      | UsageFail a \<Rightarrow>
          \<lparr>selected = UsageFail a, outcome = Exited 2,
           emitted = [UsageMessage (grp_name g) a], world = w\<rparr>)"

subsection \<open>What the module relies on from a framework\<close>

text \<open>
  The exit status a group call contributes by itself, that is when it does not hand over
  to a subcommand.
\<close>

definition entry_status :: "('e, 'w) main_result \<Rightarrow> int option" where
  "entry_status r =
     (case selected r of Invoke c rest \<Rightarrow> None | _ \<Rightarrow> Some (status_of (outcome r)))"

text \<open>
  A framework propagates when a call that selects a subcommand ends the way the
  subcommand ended, the subcommand having run on its arguments after the group's
  callback.
\<close>

definition propagates :: "('e, 'w) framework \<Rightarrow> bool" where
  "propagates fw =
     (\<forall>g args w c rest. selected (fw g args w) = Invoke c rest \<longrightarrow>
        outcome (fw g args w) = fst (cmd_run c rest (grp_callback g w)))"

text \<open>
  A framework decides from the arguments when the branch a call takes, and the status it
  contributes by itself, are the same in every world for one group and one argument
  vector.
\<close>

definition decides_from_args :: "('e, 'w) framework \<Rightarrow> bool" where
  "decides_from_args fw =
     (\<forall>g args w w'. selected (fw g args w) = selected (fw g args w') \<and>
        entry_status (fw g args w) = entry_status (fw g args w'))"

subsection \<open>A stand-in for the imported command\<close>

text \<open>
  A command named \<open>build\<close> for the concrete runs below. Its world counts how often it
  has run; it fails without arguments and otherwise exits with their number.
\<close>

definition stand_in :: "(string, nat) command" where
  "stand_in =
     \<lparr>cmd_name = ''build'',
      cmd_run = (\<lambda>args n. (if args = [] then Raised ''MissingArgument''
                              else Exited (int (length args)), Suc n))\<rparr>"

subsection \<open>The sequence of statements\<close>

lemma run_module_steps:
  "mr_steps (run_module fw build name argv w) =
     [DefGroup, AddCommand (cmd_name build)] @ (if name = ''__main__'' then [CallGroup argv] else [])"
  by (simp add: run_module_def stmt_main_def stmt_add_command_def stmt_def_group_def Let_def)

lemma run_module_cli:
  "mr_cli (run_module fw build name argv w) = cli build"
  by (simp add: run_module_def stmt_main_def stmt_add_command_def stmt_def_group_def Let_def cli_def)

lemma run_module_main:
  "mr_main (run_module fw build name argv w) =
     (if name = ''__main__'' then Some (fw (cli build) argv w) else None)"
  by (simp add: run_module_def stmt_main_def stmt_add_command_def stmt_def_group_def Let_def cli_def)

lemma run_module_world:
  "mr_world (run_module fw build name argv w) =
     (if name = ''__main__'' then world (fw (cli build) argv w) else w)"
  by (simp add: run_module_def stmt_main_def stmt_add_command_def stmt_def_group_def Let_def cli_def)


subsection \<open>The group the module builds\<close>

lemma cli_fields:
  "grp_name (cli build) = ''cli''"
  "grp_help (cli build) = cli_doc"
  "grp_params (cli build) = []"
  "grp_callback (cli build) = cli_fn"
  "grp_commands (cli build) = [(cmd_name build, build)]"
  by (simp_all add: cli_def add_command_def click_group_def)

lemma cli_get_params: "get_params (cli build) = [help_option]"
  by (simp add: get_params_def cli_fields)

lemma cli_find_option:
  "find_option (cli build) tok = (if tok = ''--help'' then Some help_option else None)"
  by (simp add: find_option_def cli_get_params help_option_def)

lemma resolve_cli_empty: "resolve (cli build) [] = ShowHelp"
  by (simp add: resolve_def)

lemma resolve_cli_help: "resolve (cli build) [''--help''] = ShowHelp"
  by (simp add: resolve_def)

lemma resolve_cli_registered:
  "cmd_name build # rest \<noteq> [''--help''] \<Longrightarrow>
     resolve (cli build) (cmd_name build # rest) = Invoke build rest"
  by (simp add: resolve_def cli_fields)

lemma resolve_cli_unknown:
  "a \<noteq> cmd_name build \<Longrightarrow> a # rest \<noteq> [''--help''] \<Longrightarrow>
     resolve (cli build) (a # rest) = UsageFail a"
  by (simp add: resolve_def cli_fields)

lemma option_token_help: "is_option_token ''--help''"
  by (simp add: is_option_token_def)

subsection \<open>The dispatcher meets what the module relies on\<close>

lemma group_main_selected: "selected (group_main g args w) = resolve g args"
  by (simp add: group_main_def Let_def split: selection.splits prod.splits)

lemma propagates_group_main: "propagates group_main"
  unfolding propagates_def
proof (intro allI impI)
  fix g :: "('e, 'w) group" and args w c rest
  assume "selected (group_main g args w) = Invoke c rest"
  then have "resolve g args = Invoke c rest"
    by (simp add: group_main_selected)
  then show "outcome (group_main g args w) = fst (cmd_run c rest (grp_callback g w))"
    by (simp add: group_main_def Let_def split: prod.splits)
qed

lemma decides_from_args_group_main: "decides_from_args group_main"
  unfolding decides_from_args_def
proof (intro allI conjI)
  fix g :: "('e, 'w) group" and args w w'
  show "selected (group_main g args w) = selected (group_main g args w')"
    by (simp add: group_main_selected)
  show "entry_status (group_main g args w) = entry_status (group_main g args w')"
    by (cases "resolve g args")
      (simp_all add: entry_status_def group_main_selected, simp_all add: group_main_def)
qed

lemma stand_in_name: "cmd_name stand_in = ''build''"
  by (simp add: stand_in_def)


section \<open>The claims\<close>

subsection \<open>Claims about the module alone\<close>

text \<open>
  C6. The group is executed only when the module runs as the program entry point. Run
  under the name \<open>__main__\<close>, the module executes three statements in this order: it
  defines the group, attaches \<open>build\<close>, and calls the group with the process arguments;
  the call is made exactly once, and the group it is made on is the one defined and
  with \<open>build\<close> attached. Under any name the number of calls is one for \<open>__main__\<close> and
  none otherwise. This holds for every imported command and whatever a group call does.
\<close>

theorem group_called_once_after_declarations:
  "mr_steps (run_module fw build ''__main__'' argv w) =
     [DefGroup, AddCommand (cmd_name build), CallGroup argv]
   \<and> length (filter is_call (mr_steps (run_module fw build name argv w))) =
       (if name = ''__main__'' then 1 else 0)
   \<and> mr_main (run_module fw build ''__main__'' argv w) =
       Some (fw (add_command (click_group ''cli'' cli_doc [] cli_fn) build) argv w)"
  by (simp add: run_module_steps run_module_main is_call_def cli_def)

theorem group_called_once_after_declarations_witness:
  "mr_steps (run_module group_main stand_in ''__main__'' [''build'', ''x''] (0::nat)) =
     [DefGroup, AddCommand ''build'', CallGroup [''build'', ''x'']]
   \<and> length (filter is_call (mr_steps (run_module group_main stand_in ''cli.__main__'' [''build'', ''x''] (0::nat)))) = 0"
  using group_called_once_after_declarations
    [of group_main stand_in "[''build'', ''x'']" "0::nat" "''cli.__main__''"]
  by (simp add: stand_in_name)

text \<open>
  C9. Importing the module, that is running it under a name other than \<open>__main__\<close>,
  never runs the group or a subcommand: the run consists of the two declarations, it
  leaves the group defined with \<open>build\<close> registered, no group call was made, nothing was
  printed, the world is the one the run started in and the module body completes
  (status 0). The result is the same whatever a group call or the command would do.
\<close>

theorem import_runs_nothing:
  assumes "name \<noteq> ''__main__''"
  shows "run_module fw build name argv w =
           \<lparr>mr_steps = [DefGroup, AddCommand (cmd_name build)],
            mr_cli = add_command (click_group ''cli'' cli_doc [] cli_fn) build,
            mr_main = None, mr_world = w\<rparr>
       \<and> filter is_call (mr_steps (run_module fw build name argv w)) = []
       \<and> module_emitted (run_module fw build name argv w) = []
       \<and> exit_status (run_module fw build name argv w) = 0"
  using assms
  by (simp add: run_module_def stmt_main_def stmt_add_command_def stmt_def_group_def
      is_call_def module_emitted_def exit_status_def)

theorem import_runs_nothing_witness:
  "''cli.__main__'' \<noteq> ''__main__''
   \<and> mr_main (run_module group_main stand_in ''cli.__main__'' [''build''] (0::nat)) = None
   \<and> mr_world (run_module group_main stand_in ''cli.__main__'' [''build''] (0::nat)) = 0
   \<and> mr_steps (run_module group_main stand_in ''cli.__main__'' [''build''] (0::nat)) =
       [DefGroup, AddCommand ''build'']"
proof -
  have ne: "''cli.__main__'' \<noteq> ''__main__''" by simp
  show ?thesis
    using import_runs_nothing [OF ne, of group_main stand_in "[''build'']" "0::nat"]
    by (simp add: stand_in_name)
qed

text \<open>
  C5. The top-level group defines no option and no environment variable of its own: the
  group the module builds has an empty list of declared parameters, so the options it
  answers to are the framework's help option alone; for every argument vector, a token
  is matched at the group level only if it is \<open>--help\<close>, and then by the help option;
  and no option of the group names an environment variable.
\<close>

theorem group_declares_no_options:
  "grp_params (mr_cli (run_module fw build name argv w)) = []
   \<and> get_params (mr_cli (run_module fw build name argv w)) = [help_option]
   \<and> map (find_option (mr_cli (run_module fw build name argv w))) argv =
       map (\<lambda>tok. if tok = ''--help'' then Some help_option else None) argv
   \<and> envvars (mr_cli (run_module fw build name argv w)) = []"
  by (simp add: run_module_cli cli_fields cli_get_params cli_find_option envvars_def
      List.map_filter_def help_option_def)

theorem group_declares_no_options_witness:
  "map (find_option (mr_cli (run_module group_main stand_in ''__main__''
          [''--verbose'', ''--help'', ''build''] (0::nat))))
       [''--verbose'', ''--help'', ''build''] =
     [None, Some help_option, None]"
  using group_declares_no_options
    [of group_main stand_in "''__main__''" "[''--verbose'', ''--help'', ''build'']" "0::nat"]
  by simp

text \<open>
  C8. The entry point performs no side effect of its own. The callback of the group
  (the body of \<open>cli\<close>, which is \<open>pass\<close>) returns every world unchanged; and for every
  argument vector the world and the messages a run of the module ends with are exactly
  those of the group call when the module runs as \<open>__main__\<close>, and the initial world and
  no message otherwise.
\<close>

theorem entry_point_adds_no_side_effects:
  "grp_callback (mr_cli (run_module fw build name argv w)) w' = w'
   \<and> mr_world (run_module fw build name argv w) =
       (if name = ''__main__''
        then world (fw (mr_cli (run_module fw build name argv w)) argv w) else w)
   \<and> module_emitted (run_module fw build name argv w) =
       (if name = ''__main__''
        then emitted (fw (mr_cli (run_module fw build name argv w)) argv w) else [])"
  by (simp add: run_module_cli run_module_world run_module_main module_emitted_def
      cli_fields cli_fn_def)

theorem entry_point_adds_no_side_effects_witness:
  "grp_callback (mr_cli (run_module group_main stand_in ''__main__'' [''build'', ''x''] (0::nat))) 5 = 5
   \<and> mr_world (run_module group_main stand_in ''__main__'' [''build'', ''x''] (0::nat)) = 1
   \<and> module_emitted (run_module group_main stand_in ''__main__'' [''build'', ''x''] (0::nat)) = []"
  using entry_point_adds_no_side_effects
    [of group_main stand_in "''__main__''" "[''build'', ''x'']" "0::nat" "5::nat"]
  by (simp add: run_module_cli group_main_def resolve_def cli_fields cli_fn_def stand_in_def)

text \<open>
  C7. The entry point catches no exception: a run of the module as \<open>__main__\<close> ends
  with the error \<open>e\<close> exactly when the group call ended with the error \<open>e\<close>, for every
  argument vector, every imported command and whatever the group call does. An error
  that the delegated command raised and the framework let through therefore leaves the
  module as it was raised.
\<close>

theorem errors_propagate_unmodified:
  "(module_error (run_module fw build ''__main__'' argv w) = Some e) =
     (outcome (fw (mr_cli (run_module fw build ''__main__'' argv w)) argv w) = Raised e)"
  by (simp add: run_module_cli run_module_main module_error_def split: outcome.splits)

theorem errors_propagate_unmodified_witness:
  "module_error (run_module group_main stand_in ''__main__'' [''build''] (0::nat)) =
     Some ''MissingArgument''"
proof -
  have "outcome (group_main (mr_cli (run_module group_main stand_in ''__main__'' [''build''] (0::nat)))
          [''build''] (0::nat)) = Raised ''MissingArgument''"
    by (simp add: run_module_cli group_main_def resolve_def cli_fields cli_fn_def stand_in_def)
  then show ?thesis
    using errors_propagate_unmodified
      [of group_main stand_in "[''build'']" "0::nat" "''MissingArgument''"]
    by blast
qed


text \<open>
  C4. When the \<open>build\<close> subcommand is selected and runs, the exit status of the process
  is the one the subcommand produced. For every framework that propagates, and every run
  of the module as \<open>__main__\<close> whose group call selected the imported command on some
  arguments \<open>rest\<close>: the run ends the way the command ended when run on \<open>rest\<close> in the
  world the run started in, and the exit status of the process is the status of that
  ending. The module contributes nothing: the callback of the group leaves the world as
  it was, and the result of the call is neither replaced nor altered.
\<close>

theorem build_exit_status_propagated:
  assumes "propagates fw"
    and "map_option selected (mr_main (run_module fw build ''__main__'' argv w)) =
           Some (Invoke build rest)"
  shows "exit_status (run_module fw build ''__main__'' argv w) =
           status_of (fst (cmd_run build rest w))
       \<and> map_option outcome (mr_main (run_module fw build ''__main__'' argv w)) =
           Some (fst (cmd_run build rest w))"
proof -
  have sel: "selected (fw (cli build) argv w) = Invoke build rest"
    using assms(2) by (simp add: run_module_main)
  have "outcome (fw (cli build) argv w) =
          fst (cmd_run build rest (grp_callback (cli build) w))"
    using assms(1) sel unfolding propagates_def by blast
  then have out: "outcome (fw (cli build) argv w) = fst (cmd_run build rest w)"
    by (simp add: cli_fields cli_fn_def)
  show ?thesis
    by (simp add: exit_status_def run_module_main out)
qed

theorem build_exit_status_propagated_witness:
  "propagates (group_main :: (string, nat) framework)
   \<and> map_option selected (mr_main (run_module group_main stand_in ''__main__''
         [''build'', ''a'', ''b''] (0::nat))) = Some (Invoke stand_in [''a'', ''b''])
   \<and> exit_status (run_module group_main stand_in ''__main__'' [''build'', ''a'', ''b''] (0::nat)) = 2"
proof -
  have p: "propagates (group_main :: (string, nat) framework)"
    by (rule propagates_group_main)
  have s: "map_option selected (mr_main (run_module group_main stand_in ''__main__''
         [''build'', ''a'', ''b''] (0::nat))) = Some (Invoke stand_in [''a'', ''b''])"
    by (simp add: run_module_main group_main_selected resolve_def cli_fields stand_in_name)
  have "exit_status (run_module group_main stand_in ''__main__'' [''build'', ''a'', ''b''] (0::nat)) =
          status_of (fst (cmd_run stand_in [''a'', ''b''] (0::nat)))"
    using build_exit_status_propagated [OF p s] by blast
  then show ?thesis
    using p s by (simp add: status_of_def stand_in_def)
qed

text \<open>
  C10. Dispatch is deterministic and depends on the argument vector only. The module
  hands the group call the same group in every run and the process arguments as they
  are; so for every framework that decides from the arguments, two runs of the module
  on the same argument vector, in any two worlds, take the same branch (the same
  subcommand on the same arguments, the same usage error, or help) and the entry point
  contributes the same exit status.
\<close>

theorem dispatch_depends_only_on_argv:
  assumes "decides_from_args fw"
  shows "map_option selected (mr_main (run_module fw build name argv w1)) =
           map_option selected (mr_main (run_module fw build name argv w2))
       \<and> map_option entry_status (mr_main (run_module fw build name argv w1)) =
           map_option entry_status (mr_main (run_module fw build name argv w2))
       \<and> mr_cli (run_module fw build name argv w1) = mr_cli (run_module fw build name argv w2)"
proof -
  have "selected (fw (cli build) argv w1) = selected (fw (cli build) argv w2)"
    and "entry_status (fw (cli build) argv w1) = entry_status (fw (cli build) argv w2)"
    using assms unfolding decides_from_args_def by blast+
  then show ?thesis
    by (simp add: run_module_main run_module_cli)
qed

theorem dispatch_depends_only_on_argv_witness:
  "decides_from_args (group_main :: (string, nat) framework)
   \<and> map_option selected (mr_main (run_module group_main stand_in ''__main__'' [''deploy''] (7::nat))) =
       Some (UsageFail ''deploy'')
   \<and> map_option selected (mr_main (run_module group_main stand_in ''__main__'' [''deploy''] (0::nat))) =
       Some (UsageFail ''deploy'')"
proof -
  have d: "decides_from_args (group_main :: (string, nat) framework)"
    by (rule decides_from_args_group_main)
  have s: "map_option selected (mr_main (run_module group_main stand_in ''__main__'' [''deploy''] (0::nat))) =
       Some (UsageFail ''deploy'')"
    by (simp add: run_module_main group_main_selected resolve_def cli_fields stand_in_name)
  have "map_option selected (mr_main (run_module group_main stand_in ''__main__'' [''deploy''] (7::nat))) =
        map_option selected (mr_main (run_module group_main stand_in ''__main__'' [''deploy''] (0::nat)))"
    using dispatch_depends_only_on_argv [OF d, of stand_in "''__main__''" "[''deploy'']" 7 0]
    by blast
  then show ?thesis
    using d s by simp
qed

subsection \<open>Claims about the dispatch\<close>

text \<open>
  C1. Invoking the program with no arguments or with \<open>--help\<close> succeeds and lists
  exactly one subcommand, named \<open>build\<close>. With the imported command named \<open>build\<close>, and
  the dispatcher given above: both runs take the help branch, end with status 0, change
  nothing, and print one help page that carries the docstring, the option \<open>--help\<close> and
  the one subcommand \<open>build\<close>; and the names registered on the group the module builds
  are \<open>build\<close> and no other.
\<close>

theorem help_lists_exactly_build:
  assumes "cmd_name build = ''build''"
  shows "mr_main (run_module group_main build ''__main__'' [] w) =
           Some \<lparr>selected = ShowHelp, outcome = Exited 0,
                 emitted = [HelpPage cli_doc [''--help''] [''build'']], world = w\<rparr>
       \<and> mr_main (run_module group_main build ''__main__'' [''--help''] w) =
           Some \<lparr>selected = ShowHelp, outcome = Exited 0,
                 emitted = [HelpPage cli_doc [''--help''] [''build'']], world = w\<rparr>
       \<and> exit_status (run_module group_main build ''__main__'' [] w) = 0
       \<and> exit_status (run_module group_main build ''__main__'' [''--help''] w) = 0
       \<and> map fst (grp_commands (mr_cli (run_module group_main build name argv w))) = [''build'']"
  using assms
  by (simp add: run_module_main run_module_cli exit_status_def status_of_def group_main_def
      resolve_cli_empty resolve_cli_help cli_fields cli_get_params list_commands_def
      help_option_def)

theorem help_lists_exactly_build_witness:
  "cmd_name stand_in = ''build''
   \<and> module_emitted (run_module group_main stand_in ''__main__'' [] (0::nat)) =
       [HelpPage cli_doc [''--help''] [''build'']]
   \<and> module_emitted (run_module group_main stand_in ''__main__'' [''--help''] (0::nat)) =
       [HelpPage cli_doc [''--help''] [''build'']]
   \<and> exit_status (run_module group_main stand_in ''__main__'' [] (0::nat)) = 0"
  using help_lists_exactly_build [OF stand_in_name, of "0::nat" "''__main__''" "[]"]
  by (simp add: module_emitted_def stand_in_name)

text \<open>
  C2. For every argument vector whose first argument is \<open>build\<close>, program startup
  dispatches to the registered \<open>build\<close> command imported from \<open>commands\<close> and passes it
  the remaining arguments. With the imported command named \<open>build\<close>, and the dispatcher
  given above: the group call selects the imported command on the remaining arguments,
  the run ends the way that command ends on them in the initial world, the framework
  prints nothing, and the imported command is the only command registered on the group,
  so no other can be invoked.
\<close>

theorem build_dispatches_to_imported_command:
  assumes "cmd_name build = ''build''"
  shows "mr_main (run_module group_main build ''__main__'' (''build'' # rest) w) =
           Some \<lparr>selected = Invoke build rest, outcome = fst (cmd_run build rest w),
                 emitted = [], world = snd (cmd_run build rest w)\<rparr>
       \<and> resolve (mr_cli (run_module group_main build ''__main__'' (''build'' # rest) w))
           (''build'' # rest) = Invoke build rest
       \<and> map snd (grp_commands (mr_cli (run_module group_main build ''__main__'' (''build'' # rest) w))) =
           [build]"
proof -
  have r: "resolve (cli build) (''build'' # rest) = Invoke build rest"
    using resolve_cli_registered [of build rest] assms by simp
  show ?thesis
    by (simp add: run_module_main run_module_cli r group_main_def cli_fields cli_fn_def
        split: prod.splits)
qed

theorem build_dispatches_to_imported_command_witness:
  "cmd_name stand_in = ''build''
   \<and> mr_main (run_module group_main stand_in ''__main__'' [''build'', ''--out'', ''dir''] (0::nat)) =
       Some \<lparr>selected = Invoke stand_in [''--out'', ''dir''], outcome = Exited 2,
             emitted = [], world = 1\<rparr>"
proof -
  have "mr_main (run_module group_main stand_in ''__main__'' (''build'' # [''--out'', ''dir'']) (0::nat)) =
          Some \<lparr>selected = Invoke stand_in [''--out'', ''dir''],
                outcome = fst (cmd_run stand_in [''--out'', ''dir''] (0::nat)),
                emitted = [], world = snd (cmd_run stand_in [''--out'', ''dir''] (0::nat))\<rparr>"
    using build_dispatches_to_imported_command [OF stand_in_name, of "[''--out'', ''dir'']" "0::nat"]
    by blast
  moreover have "cmd_run stand_in [''--out'', ''dir''] (0::nat) = (Exited 2, 1)"
    by (simp add: stand_in_def)
  ultimately show ?thesis
    by (simp add: stand_in_name)
qed

text \<open>
  C3. For every argument vector whose first argument is a subcommand name other than
  \<open>build\<close>, the program ends with a nonzero exit status and a usage message. A
  subcommand name is a token that does not start with \<open>-\<close> (a token that does is an
  option, such as \<open>--help\<close>). With the imported command named \<open>build\<close>, and the
  dispatcher given above: the group call takes the usage-error branch, the status of the
  process is not 0, one usage message naming the program and the token is printed, the
  world is unchanged, and the run holds what the group call reported and nothing more.
\<close>

theorem unknown_subcommand_is_usage_error:
  assumes "cmd_name build = ''build''"
    and "a \<noteq> ''build''"
    and "\<not> is_option_token a"
  shows "mr_main (run_module group_main build ''__main__'' (a # rest) w) =
           Some \<lparr>selected = UsageFail a, outcome = Exited 2,
                 emitted = [UsageMessage ''cli'' a], world = w\<rparr>
       \<and> exit_status (run_module group_main build ''__main__'' (a # rest) w) \<noteq> 0
       \<and> module_emitted (run_module group_main build ''__main__'' (a # rest) w) =
           [UsageMessage ''cli'' a]
       \<and> mr_world (run_module group_main build ''__main__'' (a # rest) w) = w
       \<and> mr_main (run_module group_main build ''__main__'' (a # rest) w) =
           Some (group_main (mr_cli (run_module group_main build ''__main__'' (a # rest) w))
                   (a # rest) w)"
proof -
  have "a \<noteq> ''--help''"
    using assms(3) option_token_help by blast
  then have r: "resolve (cli build) (a # rest) = UsageFail a"
    using resolve_cli_unknown [of a build rest] assms(1,2) by simp
  show ?thesis
    by (simp add: run_module_main run_module_cli run_module_world exit_status_def
        status_of_def module_emitted_def r group_main_def cli_fields)
qed

theorem unknown_subcommand_is_usage_error_witness:
  "cmd_name stand_in = ''build'' \<and> ''deploy'' \<noteq> ''build'' \<and> \<not> is_option_token ''deploy''
   \<and> mr_main (run_module group_main stand_in ''__main__'' [''deploy'', ''x''] (0::nat)) =
       Some \<lparr>selected = UsageFail ''deploy'', outcome = Exited 2,
             emitted = [UsageMessage ''cli'' ''deploy''], world = 0\<rparr>
   \<and> exit_status (run_module group_main stand_in ''__main__'' [''deploy'', ''x''] (0::nat)) \<noteq> 0"
proof -
  have ne: "''deploy'' \<noteq> ''build''" by simp
  have no: "\<not> is_option_token ''deploy''" by (simp add: is_option_token_def)
  show ?thesis
    using unknown_subcommand_is_usage_error [OF stand_in_name ne no, of "[''x'']" "0::nat"]
      ne no
    by (simp add: stand_in_name)
qed

end
